theory Spec2Isabelle
  imports Main "HOL-Library.AList"
begin

section \<open>Values, errors and the outside world\<close>

text \<open>
  The module \<^verbatim>\<open>web_monitoring/db.py\<close> wraps four SQL tables (Pages, Versions, Diffs,
  Annotations), a directory of JSON files holding the diff payloads, and an in-memory
  work queue. A table is the list of its rows in insertion order, the file system is a
  map from paths to file contents, and every Python exception is a value of \<open>error\<close>.
  A \<^verbatim>\<open>datetime\<close> is an integer count of clock ticks.
\<close>

type_synonym datetime = int

datatype json =
    JNull
  | JBool bool
  | JNum int
  | JStr string
  | JList "json list"
  | JDict "(string \<times> json) list"

datatype error =
    TypeError
  | KeyError
  | IOError
  | JSONDecodeError
  | IntegrityError
  | ConnectionError
  | PageFreezerError
  | NoAncestor
  | EmptyWorkQueue

text \<open>
  The exception classes the module itself declares: \<^verbatim>\<open>PageFreezerError\<close>,
  \<^verbatim>\<open>NoAncestor\<close> and \<^verbatim>\<open>EmptyWorkQueue\<close>, all subclasses of
  \<^verbatim>\<open>WebVersioningException\<close>. Every other error is a Python built-in or belongs
  to a library.
\<close>

fun WebVersioningException :: "error \<Rightarrow> bool" where
  "WebVersioningException PageFreezerError = True"
| "WebVersioningException NoAncestor = True"
| "WebVersioningException EmptyWorkQueue = True"
| "WebVersioningException _ = False"

text \<open>
  Subscripting a Python value with a string key, \<^verbatim>\<open>d[k]\<close>: a dict answers or
  raises \<^verbatim>\<open>KeyError\<close>; \<^verbatim>\<open>None\<close>, a number, a string or a list raise
  \<^verbatim>\<open>TypeError\<close>.
\<close>

fun py_getitem :: "json \<Rightarrow> string \<Rightarrow> error + json" where
  "py_getitem (JDict kvs) k = (case map_of kvs k of None \<Rightarrow> Inl KeyError | Some v \<Rightarrow> Inr v)"
| "py_getitem _ k = Inl TypeError"

text \<open>
  Library functions the module calls and that are pure: \<^verbatim>\<open>hashlib.sha256(b).hexdigest()\<close>
  (with the \<^verbatim>\<open>.encode()\<close> before it), \<^verbatim>\<open>str\<close> on a JSON-like value,
  \<^verbatim>\<open>json.dump\<close> and \<^verbatim>\<open>json.load\<close>, and the string the database driver makes
  of a \<^verbatim>\<open>datetime\<close>. They are parameters of the model.
\<close>

record lib =
  sha256_hexdigest :: "string \<Rightarrow> string"
  py_str :: "json \<Rightarrow> string"
  json_dump :: "json \<Rightarrow> string"
  json_load :: "string \<Rightarrow> error + json"
  datetime_str :: "datetime \<Rightarrow> string"

text \<open>
  What one call draws from the outside world: the value of \<^verbatim>\<open>uuid.uuid4()\<close>, of
  \<^verbatim>\<open>datetime.datetime.utcnow()\<close>, the name of the file
  \<^verbatim>\<open>tempfile.NamedTemporaryFile(delete=False)\<close> creates, and the answer of the
  PageFreezer service to a request.
\<close>

record env =
  uuid4 :: string
  utcnow :: datetime
  NamedTemporaryFile :: string
  pagefreezer :: "string \<Rightarrow> string \<Rightarrow> error + json"

section \<open>The tables\<close>

text \<open>
  The named tuples \<^verbatim>\<open>Version\<close> and \<^verbatim>\<open>Diff\<close>. The seventh field of a
  \<^verbatim>\<open>Version\<close> is called \<^verbatim>\<open>source_time\<close> in the source and receives the
  \<^verbatim>\<open>source_type\<close> column. A row of the Versions table is a \<^verbatim>\<open>Version\<close>
  followed by \<^verbatim>\<open>created_at\<close> and \<^verbatim>\<open>updated_at\<close>, so that
  \<^verbatim>\<open>result[:-2]\<close> is the first component. A row of the Diffs table is the seven
  columns of \<open>Diff_columns\<close> followed by the two timestamps; the \<^verbatim>\<open>Diff\<close>
  tuple adds the field \<^verbatim>\<open>content\<close>.
\<close>

record Version =
  v_uuid :: string
  v_page_uuid :: string
  v_capture_time :: datetime
  v_uri :: string
  v_version_hash :: string
  v_source_time :: string
  v_source_metadata :: json

record Diff_columns =
  d_uuid :: string
  d_version_from :: string
  d_version_to :: string
  d_diffhash :: string
  d_uri :: string
  d_source_type :: string
  d_source_metadata :: json

record Diff = Diff_columns +
  d_content :: json

text \<open>
  The Annotations table is kept positional, a row being the list of its
  (column name, value) pairs in column order, because \<^verbatim>\<open>Annotations.insert\<close> hands the
  engine a tuple that is shorter than the column list. SQLAlchemy pairs such a tuple with
  the columns by \<^verbatim>\<open>zip(table.c, values)\<close>. The table object of the interface is
  reflected from the database (\<^verbatim>\<open>autoload=True\<close>), so it knows the names and types
  of \<^verbatim>\<open>ANNOTATIONS_COLUMNS\<close> but not the Python-side \<^verbatim>\<open>default\<close> of the two
  timestamps: a column left over is NULL. A \<^verbatim>\<open>Text\<close> column that is bound a
  \<^verbatim>\<open>datetime\<close> stores, and reads back, the string the driver makes of it.
\<close>

datatype sqlval =
    SqlNull
  | SqlText string
  | SqlDateTime datetime
  | SqlJSON json

datatype sqltype = Text | JSON | DateTime

definition ANNOTATIONS_COLUMNS :: "(string \<times> sqltype) list" where
  "ANNOTATIONS_COLUMNS =
     [(''uuid'', Text), (''version_from'', Text), (''version_to'', Text),
      (''annotation'', JSON), (''author'', Text),
      (''created_at'', DateTime), (''updated_at'', DateTime)]"

fun store :: "lib \<Rightarrow> sqltype \<Rightarrow> sqlval \<Rightarrow> sqlval" where
  "store l Text (SqlDateTime t) = SqlText (datetime_str l t)"
| "store l ty v = v"

fun bind_positional :: "lib \<Rightarrow> (string \<times> sqltype) list \<Rightarrow> sqlval list \<Rightarrow> (string \<times> sqlval) list" where
  "bind_positional l [] p = []"
| "bind_positional l ((c, ty) # cs) [] = (c, SqlNull) # bind_positional l cs []"
| "bind_positional l ((c, ty) # cs) (v # vs) = (c, store l ty v) # bind_positional l cs vs"

record Annotation =
  a_uuid :: sqlval
  a_version_from :: sqlval
  a_version_to :: sqlval
  a_annotation :: sqlval
  a_author :: sqlval

text \<open>\<^verbatim>\<open>nt(*args)\<close> for the five-field named tuple: any other number of arguments is a \<^verbatim>\<open>TypeError\<close>.\<close>

fun Annotation_nt :: "sqlval list \<Rightarrow> error + Annotation" where
  "Annotation_nt [u, vf, vt, an, au] =
     Inr \<lparr>a_uuid = u, a_version_from = vf, a_version_to = vt, a_annotation = an, a_author = au\<rparr>"
| "Annotation_nt _ = Inl TypeError"

text \<open>\<^verbatim>\<open>result[:-2]\<close> on a row: its values without the last two.\<close>

definition without_timestamps :: "(string \<times> sqlval) list \<Rightarrow> sqlval list" where
  "without_timestamps result = take (length result - 2) (map snd result)"

definition column :: "string \<Rightarrow> (string \<times> sqlval) list \<Rightarrow> sqlval" where
  "column c result = (case map_of result c of None \<Rightarrow> SqlNull | Some v \<Rightarrow> v)"

text \<open>
  The state of the system: the three tables the claims are about, the files, and the two
  class-level deques \<^verbatim>\<open>Versions.unprocessed\<close> and \<^verbatim>\<open>Diffs.unprocessed\<close>.
\<close>

record db =
  Versions_table :: "(Version \<times> datetime \<times> datetime) list"
  Diffs_table :: "(Diff_columns \<times> datetime \<times> datetime) list"
  Annotations_table :: "(string \<times> sqlval) list list"
  files :: "string \<rightharpoonup> string"
  Versions_unprocessed :: "string list"
  Diffs_unprocessed :: "string list"

section \<open>Versions\<close>

text \<open>
  \<^verbatim>\<open>uuid\<close> is the primary key of every table: the engine refuses a second row with
  the same value (\<^verbatim>\<open>IntegrityError\<close>).
\<close>

definition Versions_insert ::
  "env \<Rightarrow> db \<Rightarrow> string \<Rightarrow> datetime \<Rightarrow> string \<Rightarrow> string \<Rightarrow> string \<Rightarrow> json \<Rightarrow> (error + string) \<times> db" where
  "Versions_insert e s page_uuid capture_time uri version_hash source_type source_metadata =
     (let uuid' = uuid4 e;
          now = utcnow e;
          values = (\<lparr>v_uuid = uuid', v_page_uuid = page_uuid, v_capture_time = capture_time,
                     v_uri = uri, v_version_hash = version_hash, v_source_time = source_type,
                     v_source_metadata = source_metadata\<rparr>, now, now)
      in if uuid' \<in> set (map (\<lambda>r. v_uuid (fst r)) (Versions_table s))
         then (Inl IntegrityError, s)
         else (Inr uuid',
               s\<lparr>Versions_table := Versions_table s @ [values],
                 Versions_unprocessed := Versions_unprocessed s @ [uuid']\<rparr>))"

text \<open>
  \<^verbatim>\<open>fetchone()\<close> gives the first row of the result or \<^verbatim>\<open>None\<close>, and
  \<^verbatim>\<open>None[:-2]\<close> raises \<^verbatim>\<open>TypeError\<close>.
\<close>

definition Versions_getitem :: "db \<Rightarrow> string \<Rightarrow> error + Version" where
  "Versions_getitem s uuid =
     (case find (\<lambda>r. v_uuid (fst r) = uuid) (Versions_table s) of
        None \<Rightarrow> Inl TypeError
      | Some result \<Rightarrow> Inr (fst result))"

text \<open>
  \<^verbatim>\<open>ORDER BY capture_time\<close> is a stable sort of the selected rows: rows with the same
  capture time stay in insertion order.
\<close>

definition Versions_oldest :: "db \<Rightarrow> string \<Rightarrow> error + Version" where
  "Versions_oldest s page_uuid =
     (case sort_key (\<lambda>r. v_capture_time (fst r))
             (filter (\<lambda>r. v_page_uuid (fst r) = page_uuid) (Versions_table s)) of
        [] \<Rightarrow> Inl TypeError
      | result # _ \<Rightarrow> Inr (fst result))"

section \<open>Diffs\<close>

definition Diffs_insert ::
  "lib \<Rightarrow> env \<Rightarrow> db \<Rightarrow> string \<Rightarrow> string \<Rightarrow> json \<Rightarrow> string \<Rightarrow> json \<Rightarrow> (error + string) \<times> db" where
  "Diffs_insert l e s version_from version_to result source_type source_metadata =
     (case py_getitem result ''output'' of
        Inl err \<Rightarrow> (Inl err, s)
      | Inr output \<Rightarrow>
     (case py_getitem output ''diffs'' of
        Inl err \<Rightarrow> (Inl err, s)
      | Inr diffs \<Rightarrow>
     (let diffhash = sha256_hexdigest l (py_str l diffs);
          uuid' = uuid4 e;
          filepath = NamedTemporaryFile e;
          s1 = s\<lparr>files := (files s)(filepath \<mapsto> json_dump l result)\<rparr>;
          now = utcnow e;
          values = (\<lparr>d_uuid = uuid', d_version_from = version_from, d_version_to = version_to,
                     d_diffhash = diffhash, d_uri = filepath, d_source_type = source_type,
                     d_source_metadata = source_metadata\<rparr>, now, now)
      in if uuid' \<in> set (map (\<lambda>r. d_uuid (fst r)) (Diffs_table s1))
         then (Inl IntegrityError, s1)
         else (Inr uuid',
               s1\<lparr>Diffs_table := Diffs_table s1 @ [values],
                  Diffs_unprocessed := Diffs_unprocessed s1 @ [uuid']\<rparr>))))"

text \<open>
  Lookup of a Diff: the row, with \<^verbatim>\<open>None\<close> in the place of the content, then the
  file at its \<^verbatim>\<open>uri\<close> is opened and parsed, and the content replaced.
\<close>

definition Diffs_getitem :: "lib \<Rightarrow> db \<Rightarrow> string \<Rightarrow> error + Diff" where
  "Diffs_getitem l s uuid =
     (case find (\<lambda>r. d_uuid (fst r) = uuid) (Diffs_table s) of
        None \<Rightarrow> Inl TypeError
      | Some result \<Rightarrow>
          (let d = Diff_columns.extend (fst result) \<lparr>d_content = JNull\<rparr>;
               path = d_uri d
           in case files s path of
                None \<Rightarrow> Inl IOError
              | Some f \<Rightarrow>
                  (case json_load l f of
                     Inl err \<Rightarrow> Inl err
                   | Inr content \<Rightarrow> Inr (d\<lparr>d_content := content\<rparr>))))"

section \<open>Annotations\<close>

definition Annotations_insert ::
  "lib \<Rightarrow> env \<Rightarrow> db \<Rightarrow> string \<Rightarrow> string \<Rightarrow> json \<Rightarrow> string \<Rightarrow> (error + string) \<times> db" where
  "Annotations_insert l e s version_from version_to annotation author =
     (let uuid' = uuid4 e;
          now = utcnow e;
          values = [SqlText uuid', SqlText version_from, SqlText version_to,
                    SqlJSON annotation, SqlDateTime now, SqlDateTime now];
          row = bind_positional l ANNOTATIONS_COLUMNS values
      in if column ''uuid'' row \<in> set (map (column ''uuid'') (Annotations_table s))
         then (Inl IntegrityError, s)
         else (Inr uuid', s\<lparr>Annotations_table := Annotations_table s @ [row]\<rparr>))"

definition Annotations_getitem :: "db \<Rightarrow> string \<Rightarrow> error + Annotation" where
  "Annotations_getitem s uuid =
     (case find (\<lambda>r. column ''uuid'' r = SqlText uuid) (Annotations_table s) of
        None \<Rightarrow> Inl TypeError
      | Some result \<Rightarrow> Annotation_nt (without_timestamps result))"

text \<open>
  The \<^verbatim>\<open>where\<close> clause of \<^verbatim>\<open>by_change\<close> is built with Python's \<^verbatim>\<open>and\<close>
  between two SQLAlchemy comparisons. \<^verbatim>\<open>x and y\<close> is \<^verbatim>\<open>y\<close> when \<^verbatim>\<open>bool(x)\<close>
  holds and \<^verbatim>\<open>x\<close> otherwise; the truth value of a comparison \<^verbatim>\<open>column == value\<close>
  is the equality of the hashes of its two operands, a column object and a bound
  parameter object, which are never the same object.
\<close>

datatype clause = ColumnEq string sqlval

fun clause_bool :: "clause \<Rightarrow> bool" where
  "clause_bool (ColumnEq c v) = False"

definition py_and :: "clause \<Rightarrow> clause \<Rightarrow> clause" where
  "py_and x y = (if clause_bool x then y else x)"

fun holds :: "clause \<Rightarrow> (string \<times> sqlval) list \<Rightarrow> bool" where
  "holds (ColumnEq c v) result = (column c result = v)"

fun collect :: "('a \<Rightarrow> error + 'b) \<Rightarrow> 'a list \<Rightarrow> error + 'b list" where
  "collect f [] = Inr []"
| "collect f (x # xs) =
     (case f x of
        Inl err \<Rightarrow> Inl err
      | Inr y \<Rightarrow> (case collect f xs of Inl err \<Rightarrow> Inl err | Inr ys \<Rightarrow> Inr (y # ys)))"

definition Annotations_by_change :: "db \<Rightarrow> string \<Rightarrow> string \<Rightarrow> error + Annotation list" where
  "Annotations_by_change s version_from version_to =
     (let whereclause = py_and (ColumnEq ''version_from'' (SqlText version_from))
                               (ColumnEq ''version_to'' (SqlText version_to));
          results = filter (holds whereclause) (Annotations_table s)
      in collect (\<lambda>result. Annotation_nt (without_timestamps result)) results)"

section \<open>The work queue\<close>

text \<open>
  \<^verbatim>\<open>checked_out\<close> is a Python dict from user to diff uuid, kept as the list of its
  items: \<^verbatim>\<open>d[k] = v\<close> is \<open>AList.update\<close>, \<^verbatim>\<open>d.values()\<close> is \<open>map snd\<close>,
  \<^verbatim>\<open>d.pop(k)\<close> is \<open>AList.delete\<close> or a \<^verbatim>\<open>KeyError\<close>. The queue holds a
  reference to the \<^verbatim>\<open>Diffs\<close> interface; the model passes the state of the database
  at the time of the call. An operation returns its result, or the error it raises, and
  the queue as the call leaves it.

  \<^verbatim>\<open>self.priorities = priorities\<close> keeps a reference to the object the caller
  passes, and no method of the queue changes that object. Two kinds of object are told
  apart: the class-level deque \<^verbatim>\<open>Diffs.unprocessed\<close>, which \<^verbatim>\<open>Diffs.insert\<close>
  appends to, and a list of the caller's own. The loop of \<^verbatim>\<open>checkout_next\<close>
  iterates over the content of the object at the time of the call.
\<close>

datatype pending =
    Diffs_unprocessed_deque
  | Own_list "string list"

record WorkQueue =
  priorities :: pending
  checked_out :: "(string \<times> string) list"

definition WorkQueue_init :: "pending \<Rightarrow> WorkQueue" where
  "WorkQueue_init ps = \<lparr>priorities = ps, checked_out = []\<rparr>"

definition current_priorities :: "db \<Rightarrow> WorkQueue \<Rightarrow> string list" where
  "current_priorities s q =
     (case priorities q of
        Diffs_unprocessed_deque \<Rightarrow> Diffs_unprocessed s
      | Own_list ps \<Rightarrow> ps)"

fun checkout_next_loop ::
  "lib \<Rightarrow> db \<Rightarrow> WorkQueue \<Rightarrow> string \<Rightarrow> string list \<Rightarrow> (error + Diff) \<times> WorkQueue" where
  "checkout_next_loop l s q user_id [] = (Inl EmptyWorkQueue, q)"
| "checkout_next_loop l s q user_id (diff_uuid # rest) =
     (if diff_uuid \<notin> set (map snd (checked_out q))
      then (let q1 = q\<lparr>checked_out := AList.update user_id diff_uuid (checked_out q)\<rparr>
            in (Diffs_getitem l s diff_uuid, q1))
      else checkout_next_loop l s q user_id rest)"

definition checkout_next :: "lib \<Rightarrow> db \<Rightarrow> WorkQueue \<Rightarrow> string \<Rightarrow> (error + Diff) \<times> WorkQueue" where
  "checkout_next l s q user_id = checkout_next_loop l s q user_id (current_priorities s q)"

definition checkin :: "WorkQueue \<Rightarrow> string \<Rightarrow> (error + unit) \<times> WorkQueue" where
  "checkin q user_id =
     (if user_id \<in> set (map fst (checked_out q))
      then (Inr (), q\<lparr>checked_out := AList.delete user_id (checked_out q)\<rparr>)
      else (Inl KeyError, q))"

definition checkout :: "lib \<Rightarrow> db \<Rightarrow> WorkQueue \<Rightarrow> string \<Rightarrow> string \<Rightarrow> (error + Diff) \<times> WorkQueue" where
  "checkout l s q user_id diff_uuid =
     (case (if user_id \<in> set (map fst (checked_out q)) then checkin q user_id else (Inr (), q)) of
        (Inl err, q1) \<Rightarrow> (Inl err, q1)
      | (Inr _, q1) \<Rightarrow>
          (let q2 = q1\<lparr>checked_out := AList.update user_id diff_uuid (checked_out q1)\<rparr>
           in (Diffs_getitem l s diff_uuid, q2)))"

text \<open>
  A history of the queue: each operation with the state of the database it runs against.
\<close>

datatype operation =
    CheckoutNext string
  | Checkout string string
  | Checkin string

fun step :: "lib \<Rightarrow> WorkQueue \<Rightarrow> db \<times> operation \<Rightarrow> WorkQueue" where
  "step l q (s, CheckoutNext user_id) = snd (checkout_next l s q user_id)"
| "step l q (s, Checkout user_id diff_uuid) = snd (checkout l s q user_id diff_uuid)"
| "step l q (s, Checkin user_id) = snd (checkin q user_id)"

fun run :: "lib \<Rightarrow> WorkQueue \<Rightarrow> (db \<times> operation) list \<Rightarrow> WorkQueue" where
  "run l q [] = q"
| "run l q (x # xs) = run l (step l q x) xs"

text \<open>
  A \<^verbatim>\<open>checkout\<close> takes nothing from another reviewer when the Diff it names is held
  by nobody but, possibly, the caller. A history is free of takeovers when this holds of
  each of its \<^verbatim>\<open>checkout\<close> calls in the state it runs in.
\<close>

fun no_takeover :: "WorkQueue \<Rightarrow> operation \<Rightarrow> bool" where
  "no_takeover q (Checkout user_id diff_uuid) =
     list_all (\<lambda>(u, d). d \<noteq> diff_uuid \<or> u = user_id) (checked_out q)"
| "no_takeover q _ = True"

fun no_takeovers :: "lib \<Rightarrow> WorkQueue \<Rightarrow> (db \<times> operation) list \<Rightarrow> bool" where
  "no_takeovers l q [] = True"
| "no_takeovers l q (x # xs) = (no_takeover q (snd x) \<and> no_takeovers l (step l q x) xs)"


section \<open>The diff pipeline\<close>

text \<open>
  \<^verbatim>\<open>compare\<close> posts the two documents to PageFreezer and returns the decoded
  response; the request, the missing API key and the decoding can all raise.
\<close>

definition compare :: "env \<Rightarrow> string \<Rightarrow> string \<Rightarrow> error + json" where
  "compare e html1 html2 = pagefreezer e html1 html2"

text \<open>\<^verbatim>\<open>open(path).read()\<close>.\<close>

definition open_read :: "db \<Rightarrow> string \<Rightarrow> error + string" where
  "open_read s path = (case files s path of None \<Rightarrow> Inl IOError | Some f \<Rightarrow> Inr f)"

text \<open>
  \<^verbatim>\<open>diff_version\<close> has no \<^verbatim>\<open>return\<close> statement: a call that does not raise
  gives \<^verbatim>\<open>None\<close>. The result is \<open>Inr None\<close> then; \<open>Inr (Some u)\<close> would be a
  returned uuid.
\<close>

definition diff_version ::
  "lib \<Rightarrow> env \<Rightarrow> db \<Rightarrow> string \<Rightarrow> string \<Rightarrow> json \<Rightarrow> (error + string option) \<times> db" where
  "diff_version l e s version_uuid source_type source_metadata =
     (case Versions_getitem s version_uuid of
        Inl err \<Rightarrow> (Inl err, s)
      | Inr version \<Rightarrow>
     (case Versions_oldest s (v_page_uuid version) of
        Inl err \<Rightarrow> (Inl err, s)
      | Inr ancestor \<Rightarrow>
     (if ancestor = version then (Inl NoAncestor, s)
      else
     (case open_read s (v_uri ancestor) of
        Inl err \<Rightarrow> (Inl err, s)
      | Inr html1 \<Rightarrow>
     (case open_read s (v_uri version) of
        Inl err \<Rightarrow> (Inl err, s)
      | Inr html2 \<Rightarrow>
     (case compare e html1 html2 of
        Inl err \<Rightarrow> (Inl err, s)
      | Inr result \<Rightarrow>
     (case py_getitem result ''status'' of
        Inl err \<Rightarrow> (Inl err, s)
      | Inr status \<Rightarrow>
     (if status \<noteq> JStr ''ok'' then (Inl PageFreezerError, s)
      else
     (case py_getitem result ''result'' of
        Inl err \<Rightarrow> (Inl err, s)
      | Inr r \<Rightarrow>
     (case Diffs_insert l e s (v_uuid ancestor) (v_uuid version) r source_type source_metadata of
        (Inl err, s1) \<Rightarrow> (Inl err, s1)
      | (Inr new_uuid, s1) \<Rightarrow> (Inr None, s1)))))))))))"

section \<open>A worked example\<close>

text \<open>
  The page \<^verbatim>\<open>example.gov\<close> with three captures V1, V2 and V3 at times 0, 10 and 20,
  the Diff D1 from V1 to V2 already stored, and PageFreezer answering every request with
  the same successful result. The library functions of the example agree with the real
  ones on the documents that occur here and are stand-ins elsewhere.
\<close>

definition example_result :: json where
  "example_result =
     JDict [(''status'', JStr ''ok''),
            (''output'', JDict [(''diffs'', JList [JStr ''+ new paragraph'']), (''ratio'', JNum 1)])]"

definition example_lib :: lib where
  "example_lib =
     \<lparr>sha256_hexdigest = (\<lambda>b. ''sha256 of '' @ b),
      py_str = (\<lambda>j. if j = JList [JStr ''+ new paragraph''] then ''['+ new paragraph']'' else ''None''),
      json_dump = (\<lambda>j. if j = example_result then ''{status: ok, output: {diffs: [+ new paragraph], ratio: 1}}'' else ''null''),
      json_load = (\<lambda>f. if f = ''{status: ok, output: {diffs: [+ new paragraph], ratio: 1}}'' then Inr example_result
                        else if f = ''null'' then Inr JNull else Inl JSONDecodeError),
      datetime_str = (\<lambda>t. if t = 300 then ''1970-01-01 00:05:00.000000'' else ''1970-01-01 00:00:00.000000'')\<rparr>"

definition example_version :: "string \<Rightarrow> datetime \<Rightarrow> string \<Rightarrow> Version \<times> datetime \<times> datetime" where
  "example_version u t path =
     (\<lparr>v_uuid = u, v_page_uuid = ''example.gov'', v_capture_time = t, v_uri = path,
       v_version_hash = ''hash of '' @ path, v_source_time = ''PageFreezer'',
       v_source_metadata = JDict []\<rparr>, 100, 100)"

definition example_diff :: "string \<Rightarrow> string \<Rightarrow> string \<Rightarrow> Diff_columns \<times> datetime \<times> datetime" where
  "example_diff u v path =
     (\<lparr>d_uuid = u, d_version_from = ''V1'', d_version_to = v,
       d_diffhash = ''sha256 of ['+ new paragraph']'', d_uri = path,
       d_source_type = ''PageFreezer'', d_source_metadata = JDict []\<rparr>, 200, 200)"

definition example_db :: db where
  "example_db =
     \<lparr>Versions_table = [example_version ''V1'' 0 ''/html/1'', example_version ''V2'' 10 ''/html/2'',
                        example_version ''V3'' 20 ''/html/3''],
      Diffs_table = [example_diff ''D1'' ''V2'' ''/tmp/d1''],
      Annotations_table = [],
      files = [''/html/1'' \<mapsto> ''<p>old</p>'', ''/html/2'' \<mapsto> ''<p>old</p><p>new</p>'',
               ''/html/3'' \<mapsto> ''<p>old</p><p>new</p>'',
               ''/tmp/d1'' \<mapsto> ''{status: ok, output: {diffs: [+ new paragraph], ratio: 1}}''],
      Versions_unprocessed = [''V1'', ''V2'', ''V3''],
      Diffs_unprocessed = [''D1'']\<rparr>"

definition example_env :: env where
  "example_env =
     \<lparr>uuid4 = ''D2'', utcnow = 300, NamedTemporaryFile = ''/tmp/d2'',
      pagefreezer = (\<lambda>html1 html2. Inr (JDict [(''status'', JStr ''ok''), (''result'', example_result)]))\<rparr>"

definition example_history :: "(db \<times> operation) list" where
  "example_history =
     [(example_db, CheckoutNext ''alice''), (example_db, CheckoutNext ''bob''),
      (example_db, Checkin ''bob''), (example_db, Checkout ''alice'' ''D2'')]"

text \<open>
  The baseline in the words of the specification: a Version is the baseline of its Page
  when the Page has no Version captured strictly before it.
\<close>

definition is_baseline :: "db \<Rightarrow> Version \<Rightarrow> bool" where
  "is_baseline s v =
     (\<not> list_ex (\<lambda>r. v_page_uuid (fst r) = v_page_uuid v \<and> v_capture_time (fst r) < v_capture_time v)
          (Versions_table s))"

text \<open>The example with a fourth capture V4, stored last and captured at time 0 like V1.\<close>

definition tie_db :: db where
  "tie_db = example_db\<lparr>Versions_table := Versions_table example_db @ [example_version ''V4'' 0 ''/html/3'']\<rparr>"

definition example_response :: json where
  "example_response = JDict [(''status'', JStr ''ok''), (''result'', example_result)]"

text \<open>
  Two annotations of the example, both about changes from V1: alice's on V1 to V2 and
  bob's on V1 to V3.
\<close>

definition annotated_db :: db where
  "annotated_db =
     snd (Annotations_insert example_lib (example_env\<lparr>uuid4 := ''A2''\<rparr>)
            (snd (Annotations_insert example_lib (example_env\<lparr>uuid4 := ''A1''\<rparr>) example_db
                    ''V1'' ''V2'' (JDict [(''significant'', JBool True)]) ''alice''))
            ''V1'' ''V3'' (JDict [(''significant'', JBool False)]) ''bob'')"

section \<open>The work queue: which Diff is handed out\<close>

lemma checkout_next_loop_find:
  "checkout_next_loop l s q user_id ps =
     (case find (\<lambda>d. d \<notin> set (map snd (checked_out q))) ps of
        None \<Rightarrow> (Inl EmptyWorkQueue, q)
      | Some d \<Rightarrow> (Diffs_getitem l s d,
                   q\<lparr>checked_out := AList.update user_id d (checked_out q)\<rparr>))"
  by (induction ps) simp_all

lemma find_primary_key:
  assumes "distinct (map k tbl)" "r \<in> set tbl"
  shows "find (\<lambda>x. k x = k r) tbl = Some r"
  using assms by (induction tbl) force+

lemma Diffs_getitem_absent:
  assumes "uuid \<notin> set (map (\<lambda>r. d_uuid (fst r)) (Diffs_table s))"
  shows "Diffs_getitem l s uuid = Inl TypeError"
proof -
  have "find (\<lambda>r. d_uuid (fst r) = uuid) (Diffs_table s) = None"
    using assms by (force simp: find_None_iff)
  then show ?thesis by (simp add: Diffs_getitem_def)
qed

lemma Diffs_getitem_row:
  assumes "distinct (map (\<lambda>r. d_uuid (fst r)) (Diffs_table s))"
    and "(c, t1, t2) \<in> set (Diffs_table s)"
  shows "Diffs_getitem l s (d_uuid c) =
     (case files s (d_uri c) of
        None \<Rightarrow> Inl IOError
      | Some f \<Rightarrow>
          (case json_load l f of
             Inl err \<Rightarrow> Inl err
           | Inr content \<Rightarrow> Inr (Diff_columns.extend c \<lparr>d_content = content\<rparr>)))"
  using find_primary_key [OF assms]
  by (simp add: Diffs_getitem_def Let_def Diff_columns.defs split: option.splits sum.splits)

text \<open>
  Claim C2, as the code has it. \<^verbatim>\<open>checkout_next(user_id)\<close> takes the first uuid of
  the priority list that is not among the values of \<^verbatim>\<open>checked_out\<close>. When there is
  none, which includes the empty list, it raises \<^verbatim>\<open>EmptyWorkQueue\<close> and leaves the
  queue as it was. When there is one, it records it under \<^verbatim>\<open>user_id\<close> and then
  looks it up in \<^verbatim>\<open>Diffs\<close>: with a row of that uuid whose file can be read and
  parsed, it returns the Diff made of that row and the parsed content; with no row of
  that uuid it raises \<^verbatim>\<open>TypeError\<close>, with no file at the row's uri
  \<^verbatim>\<open>IOError\<close>, and with a file that does not parse the error of
  \<^verbatim>\<open>json.load\<close>.
\<close>

theorem checkout_next_first_unclaimed:
  "(find (\<lambda>x. x \<notin> set (map snd (checked_out q))) (current_priorities s q) = None \<longrightarrow>
      checkout_next l s q user_id = (Inl EmptyWorkQueue, q))
   \<and> (find (\<lambda>x. x \<notin> set (map snd (checked_out q))) (current_priorities s q) = Some d \<longrightarrow>
        snd (checkout_next l s q user_id)
          = q\<lparr>checked_out := AList.update user_id d (checked_out q)\<rparr>
      \<and> (d \<notin> set (map (\<lambda>r. d_uuid (fst r)) (Diffs_table s)) \<longrightarrow>
           fst (checkout_next l s q user_id) = Inl TypeError)
      \<and> (distinct (map (\<lambda>r. d_uuid (fst r)) (Diffs_table s))
           \<and> (c, t1, t2) \<in> set (Diffs_table s) \<and> d_uuid c = d \<longrightarrow>
             (files s (d_uri c) = None \<longrightarrow>
                fst (checkout_next l s q user_id) = Inl IOError)
           \<and> (files s (d_uri c) = Some f \<and> json_load l f = Inl err \<longrightarrow>
                fst (checkout_next l s q user_id) = Inl err)
           \<and> (files s (d_uri c) = Some f \<and> json_load l f = Inr content \<longrightarrow>
                fst (checkout_next l s q user_id)
                  = Inr (Diff_columns.extend c \<lparr>d_content = content\<rparr>))))"
proof (intro conjI impI)
  assume "find (\<lambda>x. x \<notin> set (map snd (checked_out q))) (current_priorities s q) = None"
  then show "checkout_next l s q user_id = (Inl EmptyWorkQueue, q)"
    by (simp add: checkout_next_def checkout_next_loop_find)
next
  assume f: "find (\<lambda>x. x \<notin> set (map snd (checked_out q))) (current_priorities s q) = Some d"
  then have r: "checkout_next l s q user_id
      = (Diffs_getitem l s d, q\<lparr>checked_out := AList.update user_id d (checked_out q)\<rparr>)"
    by (simp add: checkout_next_def checkout_next_loop_find)
  show "snd (checkout_next l s q user_id)
          = q\<lparr>checked_out := AList.update user_id d (checked_out q)\<rparr>"
    by (simp add: r)
  show "fst (checkout_next l s q user_id) = Inl TypeError"
    if "d \<notin> set (map (\<lambda>r. d_uuid (fst r)) (Diffs_table s))"
    using that by (simp add: r Diffs_getitem_absent)
  assume row: "distinct (map (\<lambda>r. d_uuid (fst r)) (Diffs_table s))
           \<and> (c, t1, t2) \<in> set (Diffs_table s) \<and> d_uuid c = d"
  then have g: "Diffs_getitem l s d =
     (case files s (d_uri c) of
        None \<Rightarrow> Inl IOError
      | Some f \<Rightarrow>
          (case json_load l f of
             Inl err \<Rightarrow> Inl err
           | Inr content \<Rightarrow> Inr (Diff_columns.extend c \<lparr>d_content = content\<rparr>)))"
    using Diffs_getitem_row [of s c t1 t2 l] by auto
  show "fst (checkout_next l s q user_id) = Inl IOError" if "files s (d_uri c) = None"
    using that by (simp add: r g)
  show "fst (checkout_next l s q user_id) = Inl err"
    if "files s (d_uri c) = Some f \<and> json_load l f = Inl err"
    using that by (simp add: r g)
  show "fst (checkout_next l s q user_id) = Inr (Diff_columns.extend c \<lparr>d_content = content\<rparr>)"
    if "files s (d_uri c) = Some f \<and> json_load l f = Inr content"
    using that by (simp add: r g)
qed

lemmas example_defs =
  example_history_def example_db_def example_diff_def example_version_def example_lib_def
  example_result_def example_env_def WorkQueue_init_def checkout_next_def checkout_def
  checkin_def Diffs_getitem_def Diff_columns.defs current_priorities_def

theorem checkout_next_first_unclaimed_witness:
  "find (\<lambda>x. x \<notin> set (map snd (checked_out (WorkQueue_init (Own_list [''D1'', ''D2''])))))
       (current_priorities example_db (WorkQueue_init (Own_list [''D1'', ''D2'']))) = Some ''D1''
   \<and> distinct (map (\<lambda>r. d_uuid (fst r)) (Diffs_table example_db))
   \<and> example_diff ''D1'' ''V2'' ''/tmp/d1'' \<in> set (Diffs_table example_db)
   \<and> files example_db ''/tmp/d1'' = Some ''{status: ok, output: {diffs: [+ new paragraph], ratio: 1}}''
   \<and> json_load example_lib ''{status: ok, output: {diffs: [+ new paragraph], ratio: 1}}'' = Inr example_result
   \<and> checkout_next example_lib example_db (WorkQueue_init (Own_list [''D1'', ''D2''])) ''alice''
       = (Inr (Diff_columns.extend (fst (example_diff ''D1'' ''V2'' ''/tmp/d1'')) \<lparr>d_content = example_result\<rparr>),
          \<lparr>priorities = Own_list [''D1'', ''D2''], checked_out = [(''alice'', ''D1'')]\<rparr>)"
proof -
  let ?q = "WorkQueue_init (Own_list [''D1'', ''D2''])"
  let ?c = "fst (example_diff ''D1'' ''V2'' ''/tmp/d1'')"
  let ?f = "''{status: ok, output: {diffs: [+ new paragraph], ratio: 1}}''"
  have 1: "find (\<lambda>x. x \<notin> set (map snd (checked_out ?q))) (current_priorities example_db ?q) = Some ''D1''"
    by (simp add: example_defs)
  have 2: "distinct (map (\<lambda>r. d_uuid (fst r)) (Diffs_table example_db))"
    by (simp add: example_defs)
  have 3: "(?c, 200, 200) \<in> set (Diffs_table example_db)" "d_uuid ?c = ''D1''" "d_uri ?c = ''/tmp/d1''"
    "example_diff ''D1'' ''V2'' ''/tmp/d1'' = (?c, 200, 200)"
    by (simp_all add: example_defs)
  have 4: "files example_db ''/tmp/d1'' = Some ?f"
    by (simp add: example_defs)
  have 5: "json_load example_lib ?f = Inr example_result"
    by (simp add: example_defs)
  have 6: "AList.update ''alice'' ''D1'' (checked_out ?q) = [(''alice'', ''D1'')]"
    "?q\<lparr>checked_out := [(''alice'', ''D1'')]\<rparr> = \<lparr>priorities = Own_list [''D1'', ''D2''], checked_out = [(''alice'', ''D1'')]\<rparr>"
    by (simp_all add: WorkQueue_init_def)
  from checkout_next_first_unclaimed
      [where q = ?q and s = example_db and d = "''D1''" and l = example_lib and user_id = "''alice''"
         and c = ?c and ?t1.0 = 200 and ?t2.0 = 200 and f = ?f and content = example_result]
  have "checkout_next example_lib example_db ?q ''alice''
       = (Inr (Diff_columns.extend ?c \<lparr>d_content = example_result\<rparr>),
          \<lparr>priorities = Own_list [''D1'', ''D2''], checked_out = [(''alice'', ''D1'')]\<rparr>)"
    using 1 2 3 4 5 6 by (simp add: prod_eq_iff)
  with 1 2 3 4 5 show ?thesis by simp
qed

text \<open>
  Claim C2 as stated fails where the first unclaimed uuid has no row in \<^verbatim>\<open>Diffs\<close>:
  with the priority list \<^verbatim>\<open>['D2']\<close>, no claims and no Diff D2 stored, the call
  neither returns a Diff nor raises \<^verbatim>\<open>EmptyWorkQueue\<close>; it raises the
  \<^verbatim>\<open>TypeError\<close> of the lookup, after recording the claim.
\<close>

theorem checkout_next_TypeError_counterexample:
  "checkout_next example_lib example_db (WorkQueue_init (Own_list [''D2''])) ''alice''
     = (Inl TypeError, \<lparr>priorities = Own_list [''D2''], checked_out = [(''alice'', ''D2'')]\<rparr>)
   \<and> TypeError \<noteq> EmptyWorkQueue"
  by (simp add: example_defs)

section \<open>The work queue: a failed lookup leaves the claim behind\<close>

text \<open>
  Claim C10. \<^verbatim>\<open>checkout\<close> and \<^verbatim>\<open>checkout_next\<close> write the claim into
  \<^verbatim>\<open>checked_out\<close> before they load the Diff. When the lookup of the chosen uuid
  raises (no such row, no file at its uri, or a file that does not parse), the call raises
  that error and the queue it leaves behind still maps the caller to the uuid.
\<close>

theorem failed_lookup_keeps_claim:
  assumes "Diffs_getitem l s d = Inl err"
  shows "(fst (checkout l s q user_id d) = Inl err
          \<and> map_of (checked_out (snd (checkout l s q user_id d))) user_id = Some d)
       \<and> (find (\<lambda>x. x \<notin> set (map snd (checked_out q))) (current_priorities s q) = Some d
          \<longrightarrow> fst (checkout_next l s q user_id) = Inl err
            \<and> map_of (checked_out (snd (checkout_next l s q user_id))) user_id = Some d)"
  using assms
  by (simp add: checkout_def checkin_def checkout_next_def checkout_next_loop_find update_conv')

theorem failed_lookup_keeps_claim_witness:
  "Diffs_getitem example_lib example_db ''D2'' = Inl TypeError
   \<and> find (\<lambda>x. x \<notin> set (map snd (checked_out \<lparr>priorities = Own_list [''D1'', ''D2''], checked_out = [(''bob'', ''D1'')]\<rparr>)))
         (current_priorities example_db \<lparr>priorities = Own_list [''D1'', ''D2''], checked_out = [(''bob'', ''D1'')]\<rparr>) = Some ''D2''
   \<and> fst (checkout example_lib example_db \<lparr>priorities = Own_list [''D1'', ''D2''], checked_out = [(''bob'', ''D1'')]\<rparr> ''alice'' ''D2'') = Inl TypeError
   \<and> map_of (checked_out (snd (checkout example_lib example_db \<lparr>priorities = Own_list [''D1'', ''D2''], checked_out = [(''bob'', ''D1'')]\<rparr> ''alice'' ''D2''))) ''alice'' = Some ''D2''
   \<and> fst (checkout_next example_lib example_db \<lparr>priorities = Own_list [''D1'', ''D2''], checked_out = [(''bob'', ''D1'')]\<rparr> ''alice'') = Inl TypeError
   \<and> map_of (checked_out (snd (checkout_next example_lib example_db \<lparr>priorities = Own_list [''D1'', ''D2''], checked_out = [(''bob'', ''D1'')]\<rparr> ''alice''))) ''alice'' = Some ''D2''"
proof -
  have h: "Diffs_getitem example_lib example_db ''D2'' = Inl TypeError"
    by (simp add: example_defs)
  show ?thesis
    using h failed_lookup_keeps_claim [OF h, of "\<lparr>priorities = Own_list [''D1'', ''D2''], checked_out = [(''bob'', ''D1'')]\<rparr>" "''alice''"]
    by (simp add: current_priorities_def)
qed

section \<open>The work queue: one reviewer per Diff\<close>

lemma update_values_distinct:
  assumes "distinct (map fst al)" "distinct (map snd al)"
    and "list_all (\<lambda>(u, d). d \<noteq> v \<or> u = k) al"
  shows "distinct (map snd (AList.update k v al))"
  using assms
proof (induction al)
  case Nil
  then show ?case by simp
next
  case (Cons p ps)
  obtain u d where p: "p = (u, d)" by (cases p)
  show ?case
  proof (cases "u = k")
    case True
    with Cons.prems p have "k \<notin> fst ` set ps" by auto
    with Cons.prems(3) have "v \<notin> snd ` set ps"
      by (auto simp: list_all_iff)
    with True p Cons.prems show ?thesis by simp
  next
    case False
    with Cons.prems p have dv: "d \<noteq> v" by auto
    have "set (map snd (AList.update k v ps)) \<subseteq> insert v (set (map snd ps))"
      by (induction ps) auto
    with Cons.prems p dv have "d \<notin> set (map snd (AList.update k v ps))" by auto
    with False p Cons show ?thesis by simp
  qed
qed

lemma delete_values_distinct:
  "distinct (map snd al) \<Longrightarrow> distinct (map snd (AList.delete k al))"
  by (simp add: AList.delete_eq distinct_map_filter)

lemma delete_keeps_list_all:
  "list_all P al \<Longrightarrow> list_all P (AList.delete k al)"
  by (simp add: AList.delete_eq list_all_iff)

lemma step_keeps_claims_single:
  assumes "distinct (map fst (checked_out q))" "distinct (map snd (checked_out q))"
    and "no_takeover q (snd x)"
  shows "distinct (map fst (checked_out (step l q x)))
       \<and> distinct (map snd (checked_out (step l q x)))"
proof -
  obtain s op where x: "x = (s, op)" by (cases x)
  show ?thesis
  proof (cases op)
    case (CheckoutNext u)
    show ?thesis
    proof (cases "find (\<lambda>d. d \<notin> set (map snd (checked_out q))) (current_priorities s q)")
      case None
      with x CheckoutNext assms show ?thesis
        by (simp add: checkout_next_def checkout_next_loop_find)
    next
      case (Some d)
      then have "d \<notin> set (map snd (checked_out q))"
        by (auto simp: find_Some_iff)
      then have "list_all (\<lambda>(u', d'). d' \<noteq> d \<or> u' = u) (checked_out q)"
        by (force simp: list_all_iff)
      with assms have "distinct (map snd (AList.update u d (checked_out q)))"
        by (intro update_values_distinct)
      with x CheckoutNext Some assms show ?thesis
        by (simp add: checkout_next_def checkout_next_loop_find distinct_update)
    qed
  next
    case (Checkout u d)
    define co where "co = (if u \<in> set (map fst (checked_out q))
                           then AList.delete u (checked_out q) else checked_out q)"
    have 1: "distinct (map fst co)"
      using assms by (simp add: co_def distinct_delete)
    have 2: "distinct (map snd co)"
      using assms by (simp add: co_def delete_values_distinct)
    have 3: "list_all (\<lambda>(u', d'). d' \<noteq> d \<or> u' = u) co"
      using assms x Checkout by (simp add: co_def delete_keeps_list_all)
    have "checked_out (step l q x) = AList.update u d co"
      using x Checkout by (simp add: checkout_def checkin_def co_def)
    with 1 2 3 show ?thesis
      by (simp add: distinct_update update_values_distinct)
  next
    case (Checkin u)
    with x assms show ?thesis
      by (simp add: checkin_def distinct_delete delete_values_distinct)
  qed
qed

lemma run_keeps_claims_single:
  assumes "no_takeovers l q ops"
    and "distinct (map fst (checked_out q))" "distinct (map snd (checked_out q))"
  shows "distinct (map fst (checked_out (run l q (take n ops))))
       \<and> distinct (map snd (checked_out (run l q (take n ops))))"
  using assms
proof (induction ops arbitrary: q n)
  case Nil
  then show ?case by simp
next
  case (Cons x xs)
  show ?case
  proof (cases n)
    case 0
    with Cons.prems show ?thesis by simp
  next
    case (Suc m)
    from Cons.prems have "distinct (map fst (checked_out (step l q x)))
       \<and> distinct (map snd (checked_out (step l q x)))"
      by (intro step_keeps_claims_single) simp_all
    with Cons.prems Cons.IH [of "step l q x" m] Suc show ?thesis by simp
  qed
qed

lemma single_holder:
  assumes "distinct (map snd al)" "map_of al u1 = Some d" "map_of al u2 = Some d"
  shows "u1 = u2"
proof -
  from assms have "(u1, d) \<in> set al" "(u2, d) \<in> set al"
    by (auto dest: map_of_SomeD)
  moreover from assms have "inj_on snd (set al)"
    by (simp add: distinct_map)
  ultimately show ?thesis
    using inj_onD [of snd "set al" "(u1, d)" "(u2, d)"] by simp
qed

text \<open>
  Claim C1, as the code has it. Start from a fresh queue and run any history of
  \<^verbatim>\<open>checkout_next\<close>, \<^verbatim>\<open>checkout\<close> and \<^verbatim>\<open>checkin\<close> calls, raising ones
  included, in which no \<^verbatim>\<open>checkout\<close> names a Diff that another reviewer holds at
  that moment. Then after every prefix of the history no two reviewers are mapped to the
  same Diff.
\<close>

theorem claims_single_without_takeover:
  assumes "no_takeovers l (WorkQueue_init ps) ops"
    and "map_of (checked_out (run l (WorkQueue_init ps) (take n ops))) u1 = Some d"
    and "map_of (checked_out (run l (WorkQueue_init ps) (take n ops))) u2 = Some d"
  shows "u1 = u2"
proof -
  have "distinct (map snd (checked_out (run l (WorkQueue_init ps) (take n ops))))"
    using assms(1) run_keeps_claims_single [of l "WorkQueue_init ps" ops n]
    by (simp add: WorkQueue_init_def)
  then show ?thesis
    using assms(2,3) by (rule single_holder)
qed

theorem claims_single_without_takeover_witness:
  "no_takeovers example_lib (WorkQueue_init (Own_list [''D1'', ''D2''])) example_history
   \<and> map_of (checked_out (run example_lib (WorkQueue_init (Own_list [''D1'', ''D2''])) (take 4 example_history))) ''alice'' = Some ''D2''
   \<and> ''alice'' = ''alice''"
proof -
  have h: "no_takeovers example_lib (WorkQueue_init (Own_list [''D1'', ''D2''])) example_history"
    by (simp add: example_defs)
  have m: "map_of (checked_out (run example_lib (WorkQueue_init (Own_list [''D1'', ''D2''])) (take 4 example_history))) ''alice'' = Some ''D2''"
    by (simp add: example_defs)
  show ?thesis
    using h m claims_single_without_takeover [OF h m m] by simp
qed

text \<open>
  Claim C1 as stated fails: \<^verbatim>\<open>checkout\<close> does not look at the values of
  \<^verbatim>\<open>checked_out\<close>. After \<^verbatim>\<open>checkout('alice', 'D1')\<close> and
  \<^verbatim>\<open>checkout('bob', 'D1')\<close> on a fresh queue both reviewers hold D1.
\<close>

theorem checkout_takeover_counterexample:
  "map_of (checked_out (run example_lib (WorkQueue_init (Own_list [''D1'', ''D2'']))
       [(example_db, Checkout ''alice'' ''D1''), (example_db, Checkout ''bob'' ''D1'')])) ''alice'' = Some ''D1''
   \<and> map_of (checked_out (run example_lib (WorkQueue_init (Own_list [''D1'', ''D2'']))
       [(example_db, Checkout ''alice'' ''D1''), (example_db, Checkout ''bob'' ''D1'')])) ''bob'' = Some ''D1''
   \<and> ''alice'' \<noteq> ''bob''"
  by (simp add: example_defs)

section \<open>The oldest Version and the baseline check\<close>

lemma Versions_getitem_row:
  assumes "(V, c, u) \<in> set (Versions_table s)"
    and "distinct (map (\<lambda>r. v_uuid (fst r)) (Versions_table s))"
  shows "Versions_getitem s (v_uuid V) = Inr V"
  using find_primary_key [OF assms(2) assms(1)] by (simp add: Versions_getitem_def)

lemma sort_key_head_least:
  assumes "sort_key f xs = y # ys" "x \<in> set xs"
  shows "f y \<le> f x"
proof -
  have "sorted (map f (y # ys))"
    using sorted_sort_key [of f xs] assms(1) by simp
  moreover have "x \<in> set (y # ys)"
    using set_sort [of f xs] assms by simp
  ultimately show ?thesis by auto
qed

lemma Versions_oldest_Inr:
  assumes "Versions_oldest s p = Inr v"
  shows "v \<in> fst ` set (Versions_table s) \<and> v_page_uuid v = p
       \<and> (\<forall>r\<in>set (Versions_table s). v_page_uuid (fst r) = p \<longrightarrow> v_capture_time v \<le> v_capture_time (fst r))"
proof -
  let ?rows = "filter (\<lambda>r. v_page_uuid (fst r) = p) (Versions_table s)"
  let ?f = "\<lambda>r. v_capture_time (fst r)"
  from assms obtain y ys where s: "sort_key ?f ?rows = y # ys" and v: "v = fst y"
    by (auto simp: Versions_oldest_def split: list.splits)
  have "y \<in> set (sort_key ?f ?rows)" using s by simp
  then have y: "y \<in> set ?rows" by simp
  have least: "\<forall>r\<in>set ?rows. ?f y \<le> ?f r"
    using sort_key_head_least [OF s] by blast
  from y have "fst y \<in> fst ` set (Versions_table s)" and "v_page_uuid (fst y) = p"
    by auto
  moreover have "\<forall>r\<in>set (Versions_table s). v_page_uuid (fst r) = p \<longrightarrow> ?f y \<le> ?f r"
  proof (intro ballI impI)
    fix r
    assume "r \<in> set (Versions_table s)" and "v_page_uuid (fst r) = p"
    then have "r \<in> set ?rows" by simp
    with least show "?f y \<le> ?f r" by blast
  qed
  ultimately show ?thesis
    unfolding v by blast
qed

lemma Versions_oldest_Inl:
  "Versions_oldest s p = Inl err \<longleftrightarrow>
     err = TypeError \<and> \<not> list_ex (\<lambda>r. v_page_uuid (fst r) = p) (Versions_table s)"
proof -
  let ?rows = "filter (\<lambda>r. v_page_uuid (fst r) = p) (Versions_table s)"
  let ?f = "\<lambda>r. v_capture_time (fst r)"
  have "(sort_key ?f ?rows = []) = (?rows = [])"
    using set_sort [of ?f ?rows] by (metis set_empty)
  then show ?thesis
    by (auto simp: Versions_oldest_def list_ex_iff filter_empty_conv split: list.splits)
qed

text \<open>
  Claim C8, as the code has it. For a Page with at least one Version,
  \<^verbatim>\<open>oldest(page_uuid)\<close> returns a Version of that Page whose capture time is least
  among the Versions of the Page. For a Page with no Version the query has no first row
  and the call raises \<^verbatim>\<open>TypeError\<close>.
\<close>

theorem oldest_least_or_TypeError:
  "(list_ex (\<lambda>r. v_page_uuid (fst r) = page_uuid) (Versions_table s) \<longrightarrow>
      (\<exists>v. Versions_oldest s page_uuid = Inr v
         \<and> v \<in> fst ` set (Versions_table s) \<and> v_page_uuid v = page_uuid
         \<and> (\<forall>r\<in>set (Versions_table s). v_page_uuid (fst r) = page_uuid
               \<longrightarrow> v_capture_time v \<le> v_capture_time (fst r))))
   \<and> (\<not> list_ex (\<lambda>r. v_page_uuid (fst r) = page_uuid) (Versions_table s) \<longrightarrow>
      Versions_oldest s page_uuid = Inl TypeError)"
proof (cases "Versions_oldest s page_uuid")
  case (Inl err)
  then show ?thesis by (simp add: Versions_oldest_Inl)
next
  case (Inr v)
  have "list_ex (\<lambda>r. v_page_uuid (fst r) = page_uuid) (Versions_table s)"
    using Inr Versions_oldest_Inl [of s page_uuid TypeError] by auto
  with Inr Versions_oldest_Inr [OF Inr] show ?thesis by simp
qed

text \<open>
  Claim C4, as the code has it. Let V be a Version in the table, \<^verbatim>\<open>uuid\<close> being the
  primary key. If V is the Version \<^verbatim>\<open>oldest\<close> returns for its Page, then
  \<^verbatim>\<open>diff_version\<close> on V raises \<^verbatim>\<open>NoAncestor\<close> and changes nothing: no Diff row, no
  file, no entry of \<^verbatim>\<open>Diffs.unprocessed\<close>. And V is the Version \<^verbatim>\<open>oldest\<close>
  returns whenever every other Version of the Page is captured strictly later than V.
\<close>

theorem oldest_Version_NoAncestor:
  assumes "(V, c, u) \<in> set (Versions_table s)"
    and "distinct (map (\<lambda>r. v_uuid (fst r)) (Versions_table s))"
  shows "(Versions_oldest s (v_page_uuid V) = Inr V \<longrightarrow>
            diff_version l e s (v_uuid V) source_type source_metadata = (Inl NoAncestor, s))
       \<and> ((\<forall>r\<in>set (Versions_table s). v_page_uuid (fst r) = v_page_uuid V \<and> fst r \<noteq> V
                \<longrightarrow> v_capture_time V < v_capture_time (fst r)) \<longrightarrow>
            Versions_oldest s (v_page_uuid V) = Inr V)"
proof (intro conjI impI)
  have g: "Versions_getitem s (v_uuid V) = Inr V"
    using assms by (rule Versions_getitem_row)
  show "diff_version l e s (v_uuid V) source_type source_metadata = (Inl NoAncestor, s)"
    if "Versions_oldest s (v_page_uuid V) = Inr V"
    using that g by (simp add: diff_version_def)
next
  assume later: "\<forall>r\<in>set (Versions_table s). v_page_uuid (fst r) = v_page_uuid V \<and> fst r \<noteq> V
                \<longrightarrow> v_capture_time V < v_capture_time (fst r)"
  have ex: "list_ex (\<lambda>r. v_page_uuid (fst r) = v_page_uuid V) (Versions_table s)"
    using assms(1) by (force simp: list_ex_iff)
  then obtain A where A: "Versions_oldest s (v_page_uuid V) = Inr A"
    using Versions_oldest_Inl [of s "v_page_uuid V"] by (cases "Versions_oldest s (v_page_uuid V)") auto
  from Versions_oldest_Inr [OF A] obtain r where r: "r \<in> set (Versions_table s)" "A = fst r"
    and p: "v_page_uuid A = v_page_uuid V"
    and le: "v_capture_time A \<le> v_capture_time V"
    using assms(1) by force
  have "A = V"
  proof (rule ccontr)
    assume "A \<noteq> V"
    with later r p have "v_capture_time V < v_capture_time A" by auto
    with le show False by simp
  qed
  with A show "Versions_oldest s (v_page_uuid V) = Inr V" by simp
qed

section \<open>The example, evaluated\<close>

lemmas pipeline_defs = example_defs tie_db_def is_baseline_def Versions_getitem_def Versions_oldest_def diff_version_def
  Diffs_insert_def open_read_def compare_def Let_def

theorem oldest_least_or_TypeError_witness:
  "list_ex (\<lambda>r. v_page_uuid (fst r) = ''example.gov'') (Versions_table example_db)
   \<and> Versions_oldest example_db ''example.gov'' = Inr (fst (example_version ''V1'' 0 ''/html/1''))
   \<and> \<not> list_ex (\<lambda>r. v_page_uuid (fst r) = ''unknown.gov'') (Versions_table example_db)
   \<and> Versions_oldest example_db ''unknown.gov'' = Inl TypeError"
  using oldest_least_or_TypeError [of "''example.gov''" example_db]
    oldest_least_or_TypeError [of "''unknown.gov''" example_db]
  by (simp add: pipeline_defs)

text \<open>
  Claim C8 as stated fails in its second half: the error for a Page without Versions is
  the built-in \<^verbatim>\<open>TypeError\<close> of subscripting \<^verbatim>\<open>None\<close>, not an error kind of the
  package; the module declares no not-found error.
\<close>

theorem oldest_TypeError_counterexample:
  "Versions_oldest example_db ''unknown.gov'' = Inl TypeError \<and> \<not> WebVersioningException TypeError"
  by (simp add: pipeline_defs)

theorem oldest_Version_NoAncestor_witness:
  "(fst (example_version ''V1'' 0 ''/html/1''), 100, 100) \<in> set (Versions_table tie_db)
   \<and> distinct (map (\<lambda>r. v_uuid (fst r)) (Versions_table tie_db))
   \<and> Versions_oldest tie_db (v_page_uuid (fst (example_version ''V1'' 0 ''/html/1'')))
       = Inr (fst (example_version ''V1'' 0 ''/html/1''))
   \<and> diff_version example_lib example_env tie_db ''V1'' ''PageFreezer'' (JDict [])
       = (Inl NoAncestor, tie_db)"
proof -
  have 1: "(fst (example_version ''V1'' 0 ''/html/1''), 100, 100) \<in> set (Versions_table tie_db)"
    by (simp add: pipeline_defs)
  have 2: "distinct (map (\<lambda>r. v_uuid (fst r)) (Versions_table tie_db))"
    by (simp add: pipeline_defs)
  have 3: "Versions_oldest tie_db (v_page_uuid (fst (example_version ''V1'' 0 ''/html/1'')))
       = Inr (fst (example_version ''V1'' 0 ''/html/1''))"
    by (simp add: pipeline_defs)
  have 4: "v_uuid (fst (example_version ''V1'' 0 ''/html/1'')) = ''V1''"
    by (simp add: example_defs)
  show ?thesis
    using 1 2 3 oldest_Version_NoAncestor [OF 1 2, of example_lib example_env "''PageFreezer''" "JDict []"]
    unfolding 4 by simp
qed

text \<open>
  Claim C4 as stated fails when two Versions of a Page share the least capture time:
  V4 has no strictly older Version, yet \<^verbatim>\<open>oldest\<close> returns V1, the comparison
  \<^verbatim>\<open>ancestor == version\<close> is false, and the call stores the Diff D2 from V1 to V4.
\<close>

theorem tied_baseline_counterexample:
  "Versions_getitem tie_db ''V4'' = Inr (fst (example_version ''V4'' 0 ''/html/3''))
   \<and> is_baseline tie_db (fst (example_version ''V4'' 0 ''/html/3''))
   \<and> fst (diff_version example_lib example_env tie_db ''V4'' ''PageFreezer'' (JDict [])) = Inr None
   \<and> map (\<lambda>r. d_uuid (fst r)) (Diffs_table (snd (diff_version example_lib example_env tie_db ''V4'' ''PageFreezer'' (JDict [])))) = [''D1'', ''D2'']
   \<and> map (\<lambda>r. d_uuid (fst r)) (Diffs_table tie_db) = [''D1'']"
  by (simp add: pipeline_defs)

section \<open>Diffs: insert, then look up\<close>

lemma find_append_new:
  assumes "k \<notin> set (map f xs)"
  shows "find (\<lambda>r. f r = k) (xs @ [y]) = (if f y = k then Some y else None)"
  using assms by (induction xs) auto

lemma Diffs_insert_cases:
  "Diffs_insert l e s vf vt X st sm = (res, s') \<Longrightarrow>
     (\<exists>err. res = Inl err \<and> Diffs_table s' = Diffs_table s \<and> Diffs_unprocessed s' = Diffs_unprocessed s)
   \<or> (\<exists>out body. py_getitem X ''output'' = Inr out \<and> py_getitem out ''diffs'' = Inr body
        \<and> uuid4 e \<notin> set (map (\<lambda>r. d_uuid (fst r)) (Diffs_table s))
        \<and> res = Inr (uuid4 e)
        \<and> s' = s\<lparr>files := (files s)(NamedTemporaryFile e \<mapsto> json_dump l X),
                 Diffs_table := Diffs_table s @
                    [(\<lparr>d_uuid = uuid4 e, d_version_from = vf, d_version_to = vt,
                       d_diffhash = sha256_hexdigest l (py_str l body), d_uri = NamedTemporaryFile e,
                       d_source_type = st, d_source_metadata = sm\<rparr>, utcnow e, utcnow e)],
                 Diffs_unprocessed := Diffs_unprocessed s @ [uuid4 e]\<rparr>)"
  by (auto simp: Diffs_insert_def Let_def split: sum.splits if_splits)

lemma Diffs_insert_success:
  assumes "py_getitem X ''output'' = Inr out" "py_getitem out ''diffs'' = Inr body"
    and "uuid4 e \<notin> set (map (\<lambda>r. d_uuid (fst r)) (Diffs_table s))"
  shows "Diffs_insert l e s vf vt X st sm =
     (Inr (uuid4 e),
      s\<lparr>files := (files s)(NamedTemporaryFile e \<mapsto> json_dump l X),
        Diffs_table := Diffs_table s @
           [(\<lparr>d_uuid = uuid4 e, d_version_from = vf, d_version_to = vt,
              d_diffhash = sha256_hexdigest l (py_str l body), d_uri = NamedTemporaryFile e,
              d_source_type = st, d_source_metadata = sm\<rparr>, utcnow e, utcnow e)],
        Diffs_unprocessed := Diffs_unprocessed s @ [uuid4 e]\<rparr>)"
  using assms by (simp add: Diffs_insert_def Let_def)

lemma Diffs_getitem_new:
  assumes "u \<notin> set (map (\<lambda>r. d_uuid (fst r)) (Diffs_table s))"
    and "json_load l doc = Inr X"
    and "d_uuid c = u" "d_uri c = path"
  shows "Diffs_getitem l
           (s\<lparr>files := (files s)(path \<mapsto> doc),
              Diffs_table := Diffs_table s @ [(c, t1, t2)],
              Diffs_unprocessed := ups\<rparr>) u
         = Inr (Diff_columns.extend c \<lparr>d_content = X\<rparr>)"
  using assms find_append_new [of u "\<lambda>r. d_uuid (fst r)" "Diffs_table s" "(c, t1, t2)"]
  by (simp add: Diffs_getitem_def Let_def Diff_columns.defs)

text \<open>
  Claim C9. Let X be a result that has a diff body \<^verbatim>\<open>X['output']['diffs']\<close>, let the
  uuid drawn be new to the Diffs table, and let \<^verbatim>\<open>json.load\<close> give X back from what
  \<^verbatim>\<open>json.dump\<close> wrote for it. Then \<^verbatim>\<open>Diffs.insert\<close> returns the uuid, and the
  lookup of that uuid in the state it leaves returns a Diff whose content is X and whose
  diffhash is the SHA-256 hex digest of \<^verbatim>\<open>str\<close> of the diff body.
\<close>

theorem insert_then_lookup:
  assumes "py_getitem X ''output'' = Inr out" "py_getitem out ''diffs'' = Inr body"
    and "uuid4 e \<notin> set (map (\<lambda>r. d_uuid (fst r)) (Diffs_table s))"
    and "json_load l (json_dump l X) = Inr X"
  shows "\<exists>s' D. Diffs_insert l e s version_from version_to X source_type source_metadata = (Inr (uuid4 e), s')
           \<and> Diffs_getitem l s' (uuid4 e) = Inr D
           \<and> d_uuid D = uuid4 e
           \<and> d_content D = X
           \<and> d_diffhash D = sha256_hexdigest l (py_str l body)"
proof -
  let ?c = "\<lparr>d_uuid = uuid4 e, d_version_from = version_from, d_version_to = version_to,
              d_diffhash = sha256_hexdigest l (py_str l body), d_uri = NamedTemporaryFile e,
              d_source_type = source_type, d_source_metadata = source_metadata\<rparr>"
  let ?s' = "s\<lparr>files := (files s)(NamedTemporaryFile e \<mapsto> json_dump l X),
        Diffs_table := Diffs_table s @ [(?c, utcnow e, utcnow e)],
        Diffs_unprocessed := Diffs_unprocessed s @ [uuid4 e]\<rparr>"
  have i: "Diffs_insert l e s version_from version_to X source_type source_metadata = (Inr (uuid4 e), ?s')"
    using assms(1-3) by (rule Diffs_insert_success)
  have g: "Diffs_getitem l ?s' (uuid4 e) = Inr (Diff_columns.extend ?c \<lparr>d_content = X\<rparr>)"
    using assms(3,4) by (intro Diffs_getitem_new) simp_all
  show ?thesis
    using i g by (simp add: Diff_columns.defs)
qed

theorem insert_then_lookup_witness:
  "py_getitem example_result ''output'' = Inr (JDict [(''diffs'', JList [JStr ''+ new paragraph'']), (''ratio'', JNum 1)])
   \<and> py_getitem (JDict [(''diffs'', JList [JStr ''+ new paragraph'']), (''ratio'', JNum 1)]) ''diffs'' = Inr (JList [JStr ''+ new paragraph''])
   \<and> uuid4 example_env \<notin> set (map (\<lambda>r. d_uuid (fst r)) (Diffs_table example_db))
   \<and> json_load example_lib (json_dump example_lib example_result) = Inr example_result
   \<and> (\<exists>s' D. Diffs_insert example_lib example_env example_db ''V1'' ''V3'' example_result ''PageFreezer'' (JDict []) = (Inr ''D2'', s')
           \<and> Diffs_getitem example_lib s' ''D2'' = Inr D
           \<and> d_content D = example_result
           \<and> d_diffhash D = ''sha256 of ['+ new paragraph']'')"
proof -
  have 1: "py_getitem example_result ''output'' = Inr (JDict [(''diffs'', JList [JStr ''+ new paragraph'']), (''ratio'', JNum 1)])"
    by (simp add: example_defs)
  have 2: "py_getitem (JDict [(''diffs'', JList [JStr ''+ new paragraph'']), (''ratio'', JNum 1)]) ''diffs'' = Inr (JList [JStr ''+ new paragraph''])"
    by simp
  have 3: "uuid4 example_env \<notin> set (map (\<lambda>r. d_uuid (fst r)) (Diffs_table example_db))"
    by (simp add: example_defs)
  have 4: "json_load example_lib (json_dump example_lib example_result) = Inr example_result"
    by (simp add: example_defs)
  have 5: "uuid4 example_env = ''D2''"
    by (simp add: example_defs)
  have 6: "sha256_hexdigest example_lib (py_str example_lib (JList [JStr ''+ new paragraph''])) = ''sha256 of ['+ new paragraph']''"
    by (simp add: example_defs)
  show ?thesis
    using 1 2 3 4 insert_then_lookup [OF 1 2 3 4, of "''V1''" "''V3''" "''PageFreezer''" "JDict []"]
    unfolding 5 6 by blast
qed

section \<open>The diff pipeline: what a run leaves behind\<close>

lemma diff_version_Inr:
  assumes "diff_version l e s version_uuid st sm = (Inr ret, s')"
  shows "\<exists>version ancestor html1 html2 response r out body.
           Versions_getitem s version_uuid = Inr version
         \<and> Versions_oldest s (v_page_uuid version) = Inr ancestor
         \<and> ancestor \<noteq> version
         \<and> files s (v_uri ancestor) = Some html1
         \<and> files s (v_uri version) = Some html2
         \<and> pagefreezer e html1 html2 = Inr response
         \<and> py_getitem response ''status'' = Inr (JStr ''ok'')
         \<and> py_getitem response ''result'' = Inr r
         \<and> py_getitem r ''output'' = Inr out
         \<and> py_getitem out ''diffs'' = Inr body
         \<and> uuid4 e \<notin> set (map (\<lambda>r. d_uuid (fst r)) (Diffs_table s))
         \<and> Diffs_insert l e s (v_uuid ancestor) (v_uuid version) r st sm = (Inr (uuid4 e), s')
         \<and> ret = None"
proof -
  from assms obtain version where 1: "Versions_getitem s version_uuid = Inr version"
    by (cases "Versions_getitem s version_uuid") (auto simp: diff_version_def)
  from assms 1 obtain ancestor where 2: "Versions_oldest s (v_page_uuid version) = Inr ancestor"
    by (cases "Versions_oldest s (v_page_uuid version)") (auto simp: diff_version_def)
  from assms 1 2 have 3: "ancestor \<noteq> version"
    by (auto simp: diff_version_def)
  from assms 1 2 3 obtain html1 where 4: "files s (v_uri ancestor) = Some html1"
    by (cases "files s (v_uri ancestor)") (auto simp: diff_version_def open_read_def)
  from assms 1 2 3 4 obtain html2 where 5: "files s (v_uri version) = Some html2"
    by (cases "files s (v_uri version)") (auto simp: diff_version_def open_read_def)
  from assms 1 2 3 4 5 obtain response where 6: "pagefreezer e html1 html2 = Inr response"
    by (cases "pagefreezer e html1 html2") (auto simp: diff_version_def open_read_def compare_def)
  from assms 1 2 3 4 5 6 obtain status where 7: "py_getitem response ''status'' = Inr status"
    by (cases "py_getitem response ''status''") (auto simp: diff_version_def open_read_def compare_def)
  from assms 1 2 3 4 5 6 7 have 8: "status = JStr ''ok''"
    by (auto simp: diff_version_def open_read_def compare_def split: if_splits)
  from assms 1 2 3 4 5 6 7 8 obtain r where 9: "py_getitem response ''result'' = Inr r"
    by (cases "py_getitem response ''result''") (auto simp: diff_version_def open_read_def compare_def)
  obtain res s1 where 10: "Diffs_insert l e s (v_uuid ancestor) (v_uuid version) r st sm = (res, s1)"
    by (cases "Diffs_insert l e s (v_uuid ancestor) (v_uuid version) r st sm")
  from assms 1 2 3 4 5 6 7 8 9 10 have 11: "s1 = s'" "ret = None" "\<exists>u. res = Inr u"
    by (auto simp: diff_version_def open_read_def compare_def split: sum.splits)
  with Diffs_insert_cases [OF 10] obtain out body where
    12: "py_getitem r ''output'' = Inr out" "py_getitem out ''diffs'' = Inr body"
      "uuid4 e \<notin> set (map (\<lambda>r. d_uuid (fst r)) (Diffs_table s))" "res = Inr (uuid4 e)"
    by auto
  with 1 2 3 4 5 6 7 8 9 10 11 show ?thesis by blast
qed

lemma diff_version_Inl:
  assumes "diff_version l e s version_uuid st sm = (Inl err, s')"
  shows "Diffs_table s' = Diffs_table s \<and> Diffs_unprocessed s' = Diffs_unprocessed s"
proof -
  have ins: "\<And>vf vt r s1 err1. Diffs_insert l e s vf vt r st sm = (Inl err1, s1)
       \<Longrightarrow> Diffs_table s1 = Diffs_table s \<and> Diffs_unprocessed s1 = Diffs_unprocessed s"
    using Diffs_insert_cases by blast
  from assms show ?thesis
    by (auto simp: diff_version_def split: sum.splits if_splits prod.splits dest: ins)
qed

lemma diff_version_run:
  assumes "Versions_getitem s version_uuid = Inr version"
    and "Versions_oldest s (v_page_uuid version) = Inr ancestor"
    and "ancestor \<noteq> version"
    and "files s (v_uri ancestor) = Some html1"
    and "files s (v_uri version) = Some html2"
    and "pagefreezer e html1 html2 = Inr response"
    and "py_getitem response ''status'' = Inr (JStr ''ok'')"
    and "py_getitem response ''result'' = Inr r"
    and "py_getitem r ''output'' = Inr out"
    and "py_getitem out ''diffs'' = Inr body"
    and "uuid4 e \<notin> set (map (\<lambda>r. d_uuid (fst r)) (Diffs_table s))"
  shows "diff_version l e s version_uuid st sm =
     (Inr None,
      s\<lparr>files := (files s)(NamedTemporaryFile e \<mapsto> json_dump l r),
        Diffs_table := Diffs_table s @
           [(\<lparr>d_uuid = uuid4 e, d_version_from = v_uuid ancestor, d_version_to = v_uuid version,
              d_diffhash = sha256_hexdigest l (py_str l body), d_uri = NamedTemporaryFile e,
              d_source_type = st, d_source_metadata = sm\<rparr>, utcnow e, utcnow e)],
        Diffs_unprocessed := Diffs_unprocessed s @ [uuid4 e]\<rparr>)"
  using assms(1-8) Diffs_insert_success [OF assms(9-11), of l "v_uuid ancestor" "v_uuid version" st sm]
  by (simp add: diff_version_def open_read_def compare_def)

text \<open>
  Claim C3, as the code has it. Let V be a stored Version that is not the Version
  \<^verbatim>\<open>oldest\<close> returns for its Page. When both files can be read, PageFreezer answers
  with status \<^verbatim>\<open>ok\<close> and a result that has a diff body, and the uuid drawn is new to
  the Diffs table, \<^verbatim>\<open>diff_version\<close> returns \<^verbatim>\<open>None\<close> and leaves the Diffs table
  with exactly one more row, which has the uuid drawn, \<^verbatim>\<open>version_from\<close> the uuid of that
  oldest Version and \<^verbatim>\<open>version_to\<close> the uuid of V. In every other case it raises an
  error and the Diffs table is as before; in particular a file that cannot be read gives
  \<^verbatim>\<open>IOError\<close>, a status other than \<^verbatim>\<open>ok\<close> gives \<^verbatim>\<open>PageFreezerError\<close>, and an
  error of the request is passed on.
\<close>

theorem diff_version_stores_one_Diff:
  assumes "Versions_getitem s version_uuid = Inr version"
    and "Versions_oldest s (v_page_uuid version) = Inr ancestor"
    and "ancestor \<noteq> version"
  shows "((\<exists>html1 html2 response r out body.
              files s (v_uri ancestor) = Some html1
            \<and> files s (v_uri version) = Some html2
            \<and> pagefreezer e html1 html2 = Inr response
            \<and> py_getitem response ''status'' = Inr (JStr ''ok'')
            \<and> py_getitem response ''result'' = Inr r
            \<and> py_getitem r ''output'' = Inr out
            \<and> py_getitem out ''diffs'' = Inr body
            \<and> uuid4 e \<notin> set (map (\<lambda>r. d_uuid (fst r)) (Diffs_table s))) \<longrightarrow>
          (\<exists>c s'. diff_version l e s version_uuid source_type source_metadata = (Inr None, s')
               \<and> Diffs_table s' = Diffs_table s @ [(c, utcnow e, utcnow e)]
               \<and> d_uuid c = uuid4 e
               \<and> d_version_from c = v_uuid ancestor
               \<and> d_version_to c = v_uuid version
               \<and> v_uuid version = version_uuid))
       \<and> (\<not> (\<exists>html1 html2 response r out body.
              files s (v_uri ancestor) = Some html1
            \<and> files s (v_uri version) = Some html2
            \<and> pagefreezer e html1 html2 = Inr response
            \<and> py_getitem response ''status'' = Inr (JStr ''ok'')
            \<and> py_getitem response ''result'' = Inr r
            \<and> py_getitem r ''output'' = Inr out
            \<and> py_getitem out ''diffs'' = Inr body
            \<and> uuid4 e \<notin> set (map (\<lambda>r. d_uuid (fst r)) (Diffs_table s))) \<longrightarrow>
          (\<exists>err s'. diff_version l e s version_uuid source_type source_metadata = (Inl err, s')
               \<and> Diffs_table s' = Diffs_table s))
       \<and> (files s (v_uri ancestor) = None \<or> files s (v_uri version) = None \<longrightarrow>
            diff_version l e s version_uuid source_type source_metadata = (Inl IOError, s))
       \<and> (files s (v_uri ancestor) = Some h1 \<and> files s (v_uri version) = Some h2
            \<and> pagefreezer e h1 h2 = Inl err \<longrightarrow>
            diff_version l e s version_uuid source_type source_metadata = (Inl err, s))
       \<and> (files s (v_uri ancestor) = Some h1 \<and> files s (v_uri version) = Some h2
            \<and> pagefreezer e h1 h2 = Inr answer \<and> py_getitem answer ''status'' = Inr status
            \<and> status \<noteq> JStr ''ok'' \<longrightarrow>
            diff_version l e s version_uuid source_type source_metadata = (Inl PageFreezerError, s))"
proof (intro conjI impI)
  assume "\<exists>html1 html2 response r out body.
              files s (v_uri ancestor) = Some html1
            \<and> files s (v_uri version) = Some html2
            \<and> pagefreezer e html1 html2 = Inr response
            \<and> py_getitem response ''status'' = Inr (JStr ''ok'')
            \<and> py_getitem response ''result'' = Inr r
            \<and> py_getitem r ''output'' = Inr out
            \<and> py_getitem out ''diffs'' = Inr body
            \<and> uuid4 e \<notin> set (map (\<lambda>r. d_uuid (fst r)) (Diffs_table s))"
  then obtain html1 html2 response r out body where ok:
    "files s (v_uri ancestor) = Some html1" "files s (v_uri version) = Some html2"
    "pagefreezer e html1 html2 = Inr response"
    "py_getitem response ''status'' = Inr (JStr ''ok'')"
    "py_getitem response ''result'' = Inr r"
    "py_getitem r ''output'' = Inr out" "py_getitem out ''diffs'' = Inr body"
    "uuid4 e \<notin> set (map (\<lambda>r. d_uuid (fst r)) (Diffs_table s))"
    by blast
  have vu: "v_uuid version = version_uuid"
    using assms(1) by (auto simp: Versions_getitem_def find_Some_iff split: option.splits)
  let ?c = "\<lparr>d_uuid = uuid4 e, d_version_from = v_uuid ancestor, d_version_to = v_uuid version,
              d_diffhash = sha256_hexdigest l (py_str l body), d_uri = NamedTemporaryFile e,
              d_source_type = source_type, d_source_metadata = source_metadata\<rparr>"
  let ?s' = "s\<lparr>files := (files s)(NamedTemporaryFile e \<mapsto> json_dump l r),
        Diffs_table := Diffs_table s @ [(?c, utcnow e, utcnow e)],
        Diffs_unprocessed := Diffs_unprocessed s @ [uuid4 e]\<rparr>"
  have "diff_version l e s version_uuid source_type source_metadata = (Inr None, ?s')"
    using assms ok by (rule diff_version_run)
  moreover have "Diffs_table ?s' = Diffs_table s @ [(?c, utcnow e, utcnow e)]" by simp
  moreover have "d_uuid ?c = uuid4 e" "d_version_from ?c = v_uuid ancestor"
    "d_version_to ?c = v_uuid version" by simp_all
  ultimately show "\<exists>c s'. diff_version l e s version_uuid source_type source_metadata = (Inr None, s')
               \<and> Diffs_table s' = Diffs_table s @ [(c, utcnow e, utcnow e)]
               \<and> d_uuid c = uuid4 e
               \<and> d_version_from c = v_uuid ancestor
               \<and> d_version_to c = v_uuid version
               \<and> v_uuid version = version_uuid"
    using vu by blast
next
  assume no: "\<not> (\<exists>html1 html2 response r out body.
              files s (v_uri ancestor) = Some html1
            \<and> files s (v_uri version) = Some html2
            \<and> pagefreezer e html1 html2 = Inr response
            \<and> py_getitem response ''status'' = Inr (JStr ''ok'')
            \<and> py_getitem response ''result'' = Inr r
            \<and> py_getitem r ''output'' = Inr out
            \<and> py_getitem out ''diffs'' = Inr body
            \<and> uuid4 e \<notin> set (map (\<lambda>r. d_uuid (fst r)) (Diffs_table s)))"
  obtain res s' where d: "diff_version l e s version_uuid source_type source_metadata = (res, s')"
    by (cases "diff_version l e s version_uuid source_type source_metadata")
  show "\<exists>err s'. diff_version l e s version_uuid source_type source_metadata = (Inl err, s')
               \<and> Diffs_table s' = Diffs_table s"
  proof (cases res)
    case (Inl err)
    with d diff_version_Inl [of l e s version_uuid source_type source_metadata err s']
    show ?thesis by simp
  next
    case (Inr ret)
    with d have "diff_version l e s version_uuid source_type source_metadata = (Inr ret, s')"
      by simp
    from diff_version_Inr [OF this] obtain version' ancestor' html1 html2 response r out body
      where v': "Versions_getitem s version_uuid = Inr version'"
        "Versions_oldest s (v_page_uuid version') = Inr ancestor'"
      and ok: "files s (v_uri ancestor') = Some html1" "files s (v_uri version') = Some html2"
        "pagefreezer e html1 html2 = Inr response"
        "py_getitem response ''status'' = Inr (JStr ''ok'')"
        "py_getitem response ''result'' = Inr r"
        "py_getitem r ''output'' = Inr out" "py_getitem out ''diffs'' = Inr body"
        "uuid4 e \<notin> set (map (\<lambda>r. d_uuid (fst r)) (Diffs_table s))"
      by blast
    from v'(1) assms(1) have "version' = version" by simp
    with v'(2) assms(2) have "ancestor' = ancestor" by simp
    with ok \<open>version' = version\<close> no show ?thesis by blast
  qed
next
  assume "files s (v_uri ancestor) = None \<or> files s (v_uri version) = None"
  then show "diff_version l e s version_uuid source_type source_metadata = (Inl IOError, s)"
    using assms by (auto simp: diff_version_def open_read_def split: option.splits)
next
  assume "files s (v_uri ancestor) = Some h1 \<and> files s (v_uri version) = Some h2
            \<and> pagefreezer e h1 h2 = Inl err"
  then show "diff_version l e s version_uuid source_type source_metadata = (Inl err, s)"
    using assms by (simp add: diff_version_def open_read_def compare_def)
next
  assume "files s (v_uri ancestor) = Some h1 \<and> files s (v_uri version) = Some h2
            \<and> pagefreezer e h1 h2 = Inr answer \<and> py_getitem answer ''status'' = Inr status
            \<and> status \<noteq> JStr ''ok''"
  then show "diff_version l e s version_uuid source_type source_metadata = (Inl PageFreezerError, s)"
    using assms by (simp add: diff_version_def open_read_def compare_def)
qed

section \<open>From the diff pipeline to the work queue\<close>




lemmas run_defs = pipeline_defs example_response_def


theorem diff_version_stores_one_Diff_witness:
  "Versions_getitem example_db ''V3'' = Inr (fst (example_version ''V3'' 20 ''/html/3''))
   \<and> Versions_oldest example_db (v_page_uuid (fst (example_version ''V3'' 20 ''/html/3''))) = Inr (fst (example_version ''V1'' 0 ''/html/1''))
   \<and> fst (example_version ''V1'' 0 ''/html/1'') \<noteq> fst (example_version ''V3'' 20 ''/html/3'')
   \<and> files example_db (v_uri (fst (example_version ''V1'' 0 ''/html/1''))) = Some ''<p>old</p>''
   \<and> files example_db (v_uri (fst (example_version ''V3'' 20 ''/html/3''))) = Some ''<p>old</p><p>new</p>''
   \<and> pagefreezer example_env ''<p>old</p>'' ''<p>old</p><p>new</p>'' = Inr example_response
   \<and> py_getitem example_response ''status'' = Inr (JStr ''ok'')
   \<and> py_getitem example_response ''result'' = Inr example_result
   \<and> py_getitem example_result ''output'' = Inr (JDict [(''diffs'', JList [JStr ''+ new paragraph'']), (''ratio'', JNum 1)])
   \<and> py_getitem (JDict [(''diffs'', JList [JStr ''+ new paragraph'']), (''ratio'', JNum 1)]) ''diffs'' = Inr (JList [JStr ''+ new paragraph''])
   \<and> uuid4 example_env \<notin> set (map (\<lambda>r. d_uuid (fst r)) (Diffs_table example_db))
   \<and> (\<exists>c s'. diff_version example_lib example_env example_db ''V3'' ''PageFreezer'' (JDict []) = (Inr None, s')
          \<and> Diffs_table s' = Diffs_table example_db @ [(c, 300, 300)]
          \<and> d_uuid c = ''D2'' \<and> d_version_from c = ''V1'' \<and> d_version_to c = ''V3'')
   \<and> pagefreezer (example_env\<lparr>pagefreezer := \<lambda>html1 html2. Inr (JDict [(''status'', JStr ''error'')])\<rparr>)
        ''<p>old</p>'' ''<p>old</p><p>new</p>'' = Inr (JDict [(''status'', JStr ''error'')])
   \<and> py_getitem (JDict [(''status'', JStr ''error'')]) ''status'' = Inr (JStr ''error'')
   \<and> JStr ''error'' \<noteq> JStr ''ok''
   \<and> diff_version example_lib
        (example_env\<lparr>pagefreezer := \<lambda>html1 html2. Inr (JDict [(''status'', JStr ''error'')])\<rparr>)
        example_db ''V3'' ''PageFreezer'' (JDict []) = (Inl PageFreezerError, example_db)"
proof -
  let ?V3 = "fst (example_version ''V3'' 20 ''/html/3'')"
  let ?V1 = "fst (example_version ''V1'' 0 ''/html/1'')"
  let ?out = "JDict [(''diffs'', JList [JStr ''+ new paragraph'']), (''ratio'', JNum 1)]"
  let ?bad = "example_env\<lparr>pagefreezer := \<lambda>html1 html2. Inr (JDict [(''status'', JStr ''error'')])\<rparr>"
  have v: "Versions_getitem example_db ''V3'' = Inr ?V3"
    "Versions_oldest example_db (v_page_uuid ?V3) = Inr ?V1" "?V1 \<noteq> ?V3"
    by (simp_all add: run_defs)
  have ok: "files example_db (v_uri ?V1) = Some ''<p>old</p>''"
    "files example_db (v_uri ?V3) = Some ''<p>old</p><p>new</p>''"
    "pagefreezer example_env ''<p>old</p>'' ''<p>old</p><p>new</p>'' = Inr example_response"
    "py_getitem example_response ''status'' = Inr (JStr ''ok'')"
    "py_getitem example_response ''result'' = Inr example_result"
    "py_getitem example_result ''output'' = Inr ?out"
    "py_getitem ?out ''diffs'' = Inr (JList [JStr ''+ new paragraph''])"
    "uuid4 example_env \<notin> set (map (\<lambda>r. d_uuid (fst r)) (Diffs_table example_db))"
    by (simp_all add: run_defs)
  have bad: "pagefreezer ?bad ''<p>old</p>'' ''<p>old</p><p>new</p>'' = Inr (JDict [(''status'', JStr ''error'')])"
    "py_getitem (JDict [(''status'', JStr ''error'')]) ''status'' = Inr (JStr ''error'')"
    "JStr ''error'' \<noteq> JStr ''ok''"
    by simp_all
  have k: "uuid4 example_env = ''D2''" "utcnow example_env = 300" "v_uuid ?V1 = ''V1''" "v_uuid ?V3 = ''V3''"
    by (simp_all add: run_defs)
  from diff_version_stores_one_Diff
      [OF v, where e = example_env and l = example_lib and source_type = "''PageFreezer''"
         and source_metadata = "JDict []"] ok
  have 1: "\<exists>c s'. diff_version example_lib example_env example_db ''V3'' ''PageFreezer'' (JDict []) = (Inr None, s')
          \<and> Diffs_table s' = Diffs_table example_db @ [(c, 300, 300)]
          \<and> d_uuid c = ''D2'' \<and> d_version_from c = ''V1'' \<and> d_version_to c = ''V3''"
    unfolding k by blast
  from diff_version_stores_one_Diff
      [OF v, where e = ?bad and l = example_lib and source_type = "''PageFreezer''"
         and source_metadata = "JDict []" and ?h1.0 = "''<p>old</p>''" and ?h2.0 = "''<p>old</p><p>new</p>''"
         and answer = "JDict [(''status'', JStr ''error'')]" and status = "JStr ''error''"]
    ok(1,2) bad
  have 2: "diff_version example_lib ?bad example_db ''V3'' ''PageFreezer'' (JDict []) = (Inl PageFreezerError, example_db)"
    by blast
  from v ok bad 1 2 show ?thesis by blast
qed

text \<open>
  Claim C3 as stated fails in what the call returns: the run on V3 stores the Diff D2 and
  returns \<^verbatim>\<open>None\<close>, not the uuid D2.
\<close>

theorem diff_version_returns_None_counterexample:
  "fst (diff_version example_lib example_env example_db ''V3'' ''PageFreezer'' (JDict [])) = Inr None
   \<and> map (\<lambda>r. d_uuid (fst r)) (Diffs_table (snd (diff_version example_lib example_env example_db ''V3'' ''PageFreezer'' (JDict []))))
       = [''D1'', ''D2'']
   \<and> fst (diff_version example_lib example_env example_db ''V3'' ''PageFreezer'' (JDict [])) \<noteq> Inr (Some ''D2'')"
  by (simp add: run_defs)

section \<open>Annotations\<close>

lemmas annotation_defs = run_defs annotated_db_def Annotations_insert_def Annotations_getitem_def
  Annotations_by_change_def ANNOTATIONS_COLUMNS_def column_def without_timestamps_def py_and_def

text \<open>
  Claim C6, evaluated. With alice's annotation of the change from V1 to V2 and bob's of
  the change from V1 to V3 stored, \<^verbatim>\<open>by_change('V1', 'V3')\<close> returns both: the
  \<^verbatim>\<open>where\<close> clause that reaches the engine is the comparison of
  \<^verbatim>\<open>version_from\<close> alone.
\<close>

theorem by_change_ignores_version_to:
  "Annotations_by_change annotated_db ''V1'' ''V3'' =
     Inr [\<lparr>a_uuid = SqlText ''A1'', a_version_from = SqlText ''V1'', a_version_to = SqlText ''V2'',
            a_annotation = SqlJSON (JDict [(''significant'', JBool True)]), a_author = SqlText ''1970-01-01 00:05:00.000000''\<rparr>,
          \<lparr>a_uuid = SqlText ''A2'', a_version_from = SqlText ''V1'', a_version_to = SqlText ''V3'',
            a_annotation = SqlJSON (JDict [(''significant'', JBool False)]), a_author = SqlText ''1970-01-01 00:05:00.000000''\<rparr>]"
  by (simp add: annotation_defs)

text \<open>
  Claim C7, evaluated. \<^verbatim>\<open>Annotations.insert('V1', 'V2', judgment, 'alice')\<close> returns
  the new uuid, but the tuple of values it builds leaves \<^verbatim>\<open>author\<close> out, so the
  \<^verbatim>\<open>author\<close> column receives the timestamp \<^verbatim>\<open>now\<close> and stores its string,
  \<^verbatim>\<open>updated_at\<close> is left NULL, and the record read back by that uuid does not carry
  alice.
\<close>

theorem insert_loses_author:
  "fst (Annotations_insert example_lib (example_env\<lparr>uuid4 := ''A1''\<rparr>) example_db
          ''V1'' ''V2'' (JDict [(''significant'', JBool True)]) ''alice'') = Inr ''A1''
   \<and> Annotations_getitem
        (snd (Annotations_insert example_lib (example_env\<lparr>uuid4 := ''A1''\<rparr>) example_db
                ''V1'' ''V2'' (JDict [(''significant'', JBool True)]) ''alice'')) ''A1''
      = Inr \<lparr>a_uuid = SqlText ''A1'', a_version_from = SqlText ''V1'', a_version_to = SqlText ''V2'',
             a_annotation = SqlJSON (JDict [(''significant'', JBool True)]), a_author = SqlText ''1970-01-01 00:05:00.000000''\<rparr>
   \<and> Annotations_table
        (snd (Annotations_insert example_lib (example_env\<lparr>uuid4 := ''A1''\<rparr>) example_db
                ''V1'' ''V2'' (JDict [(''significant'', JBool True)]) ''alice''))
      = [[(''uuid'', SqlText ''A1''), (''version_from'', SqlText ''V1''), (''version_to'', SqlText ''V2''),
          (''annotation'', SqlJSON (JDict [(''significant'', JBool True)])),
          (''author'', SqlText ''1970-01-01 00:05:00.000000''), (''created_at'', SqlDateTime 300),
          (''updated_at'', SqlNull)]]"
  by (simp add: annotation_defs)

end
